theory Spec2Isabelle
  imports
    Complex_Main
    "HOL-Library.Char_ord"
    "HOL-Library.List_Lexorder"
    "HOL-Library.Product_Lexorder"
begin

section \<open>Tables of the free-agent dashboard\<close>

text \<open>
  The two scripts \<^verbatim>\<open>app.py\<close> and \<^verbatim>\<open>fa_tracker.py\<close> work on pandas data frames
  read from CSV files. A frame of the loaded data set is modelled with the column kinds
  that \<^verbatim>\<open>read_csv\<close> produces: 64-bit integer, floating point, Boolean, and
  \<^verbatim>\<open>object\<close> columns holding text with \<^verbatim>\<open>NaN\<close> for a missing entry (the dtype
  of a text column in pandas 1 and 2, which the scripts test for). A frame is a list of
  labelled columns of one length.

  Floating-point numbers are modelled by their exact decimal value (a rational) together
  with the two infinities and \<^verbatim>\<open>NaN\<close>; binary rounding and overflow are not modelled.
  Text is ASCII.
\<close>

datatype fl = Fin rat | PInf | NInf | NaN

datatype column =
    ObjectCol "string option list"
  | FloatCol "fl list"
  | IntCol "int list"
  | BoolCol "bool list"

type_synonym table = "(string \<times> column) list"

datatype error =
    FileNotFoundError string
  | ParserError string
  | KeyError string
  | ValueError string
  | TypeError string

subsection \<open>Python strings\<close>

definition startswith :: "string \<Rightarrow> string \<Rightarrow> bool" where
  "startswith s p = (take (length p) s = p)"

definition is_digit :: "char \<Rightarrow> bool" where
  "is_digit c = (c \<in> set ''0123456789'')"

definition digit_val :: "char \<Rightarrow> nat" where
  "digit_val c = of_char c - 48"

text \<open>The ASCII characters that \<^verbatim>\<open>str.strip()\<close> and \<^verbatim>\<open>float()\<close> treat as white space.\<close>

definition is_space :: "char \<Rightarrow> bool" where
  "is_space c = (of_char c \<in> {9, 10, 11, 12, 13, 28, 29, 30, 31, 32 :: nat})"

definition strip :: "string \<Rightarrow> string" where
  "strip s = rev (dropWhile is_space (rev (dropWhile is_space s)))"

definition lower_char :: "char \<Rightarrow> char" where
  "lower_char c =
     (let n = (of_char c :: nat) in if 65 \<le> n \<and> n \<le> 90 then char_of (n + 32) else c)"

definition lower :: "string \<Rightarrow> string" where
  "lower s = map lower_char s"

text \<open>\<^verbatim>\<open>s.replace(old, "")\<close> for a one-character \<^verbatim>\<open>old\<close>.\<close>

definition remove_char :: "char \<Rightarrow> string \<Rightarrow> string" where
  "remove_char c s = filter (\<lambda>d. d \<noteq> c) s"

text \<open>\<^verbatim>\<open>str.isdigit()\<close> on ASCII text: non-empty and digits only.\<close>

definition isdigit :: "string \<Rightarrow> bool" where
  "isdigit s = (s \<noteq> [] \<and> list_all is_digit s)"

subsection \<open>Python's \<^verbatim>\<open>float(str)\<close>\<close>

text \<open>
  The grammar of \<^verbatim>\<open>float()\<close>: white space around an optional sign followed by
  \<^verbatim>\<open>inf\<close>, \<^verbatim>\<open>infinity\<close>, \<^verbatim>\<open>nan\<close> (any case) or a decimal number
  with optional fraction and exponent; single underscores may separate digits.
  \<open>digitpart\<close> reads the longest run of digits (with such underscores) and returns the
  digits read and the rest of the text.
\<close>

fun digitpart :: "string \<Rightarrow> nat list \<times> string" where
  "digitpart [] = ([], [])"
| "digitpart [c] = (if is_digit c then ([digit_val c], []) else ([], [c]))"
| "digitpart (c # u # cs) =
     (if \<not> is_digit c then ([], c # u # cs)
      else if is_digit u then (case digitpart (u # cs) of (ds, r) \<Rightarrow> (digit_val c # ds, r))
      else if u = CHR ''_'' \<and> cs \<noteq> [] \<and> is_digit (hd cs)
        then (case digitpart cs of (ds, r) \<Rightarrow> (digit_val c # ds, r))
      else ([digit_val c], u # cs))"

definition nat_of_digits :: "nat list \<Rightarrow> nat" where
  "nat_of_digits ds = foldl (\<lambda>a d. 10 * a + d) 0 ds"

text \<open>The mantissa: \<^verbatim>\<open>digits [. [digits]]\<close> or \<^verbatim>\<open>. digits\<close>.\<close>

definition mantissa :: "string \<Rightarrow> (rat \<times> string) option" where
  "mantissa s =
     (case digitpart s of (ip, r) \<Rightarrow>
        (case r of
           c # r' \<Rightarrow>
             if c = CHR ''.'' then
               (case digitpart r' of (fp, r'') \<Rightarrow>
                  if ip = [] \<and> fp = [] then None
                  else Some (of_nat (nat_of_digits (ip @ fp)) / 10 ^ length fp, r''))
             else if ip = [] then None else Some (of_nat (nat_of_digits ip), r)
         | [] \<Rightarrow> if ip = [] then None else Some (of_nat (nat_of_digits ip), [])))"

text \<open>The exponent, if any: \<^verbatim>\<open>e\<close> or \<^verbatim>\<open>E\<close>, an optional sign, digits. The result
  is the power of ten; \<open>None\<close> when text is left over or the exponent is malformed.\<close>

definition exponent :: "string \<Rightarrow> rat option" where
  "exponent s =
     (case s of
        [] \<Rightarrow> Some 1
      | c # r \<Rightarrow>
          if c = CHR ''e'' \<or> c = CHR ''E'' then
            (case r of
               [] \<Rightarrow> None
             | d # r' \<Rightarrow>
                 (let neg = (d = CHR ''-'');
                      body = (if d = CHR ''-'' \<or> d = CHR ''+'' then r' else r)
                  in case digitpart body of (ds, rest) \<Rightarrow>
                       if ds = [] \<or> rest \<noteq> [] then None
                       else if neg then Some (1 / 10 ^ nat_of_digits ds)
                       else Some (10 ^ nat_of_digits ds)))
          else None)"

definition abs_float :: "string \<Rightarrow> fl option" where
  "abs_float s =
     (if lower s = ''inf'' \<or> lower s = ''infinity'' then Some PInf
      else if lower s = ''nan'' then Some NaN
      else (case mantissa s of
              None \<Rightarrow> None
            | Some (m, r) \<Rightarrow> (case exponent r of None \<Rightarrow> None | Some p \<Rightarrow> Some (Fin (m * p)))))"

definition fl_neg :: "fl \<Rightarrow> fl" where
  "fl_neg x = (case x of Fin r \<Rightarrow> Fin (- r) | PInf \<Rightarrow> NInf | NInf \<Rightarrow> PInf | NaN \<Rightarrow> NaN)"

definition py_float :: "string \<Rightarrow> fl option" where
  "py_float s =
     (case strip s of
        [] \<Rightarrow> None
      | c # r \<Rightarrow>
          if c = CHR ''-'' then map_option fl_neg (abs_float r)
          else if c = CHR ''+'' then abs_float r
          else abs_float (c # r))"

subsection \<open>Column access\<close>

text \<open>
  \<^verbatim>\<open>df[col]\<close> raises \<^verbatim>\<open>KeyError\<close> for an unknown label. Column labels of a loaded
  frame are pairwise distinct (\<^verbatim>\<open>read_csv\<close> renames repeated headers), which the
  theorems below assume where a label is looked up.
\<close>

fun getitem :: "table \<Rightarrow> string \<Rightarrow> error + column" where
  "getitem [] c = Inl (KeyError c)"
| "getitem ((n, col) # t) c = (if n = c then Inr col else getitem t c)"

text \<open>\<^verbatim>\<open>df[col] = values\<close>: an existing column is replaced where it stands, a new one is
  appended.\<close>

fun setitem :: "table \<Rightarrow> string \<Rightarrow> column \<Rightarrow> table" where
  "setitem [] c v = [(c, v)]"
| "setitem ((n, col) # t) c v = (if n = c then (n, v) # t else (n, col) # setitem t c v)"

section \<open>The currency normalizer\<close>

text \<open>
  \<^verbatim>\<open>
  def convert_currency_columns(df):
      for col in df.columns:
          if df[col].dtype == "object":
              if df[col].str.startswith("$").any():
                  df[col] = df[col].replace('[\$,]', '', regex=True).astype(float)
      return df
  \<close>
  The function assigns into the frame it is given and returns that same frame, so it is
  modelled on a store of frames: a reference names a frame object, and the store maps
  every reference to the frame's current content.
\<close>

type_synonym ref = nat
type_synonym heap = "ref \<Rightarrow> table"

text \<open>\<^verbatim>\<open>series.str.startswith("$").any()\<close>: a missing entry gives \<^verbatim>\<open>NaN\<close>, which
  \<^verbatim>\<open>any()\<close> skips.\<close>

definition any_startswith_dollar :: "string option list \<Rightarrow> bool" where
  "any_startswith_dollar vs =
     list_ex (\<lambda>v. case v of None \<Rightarrow> False | Some s \<Rightarrow> startswith s ''$'') vs"

text \<open>\<^verbatim>\<open>series.replace('[\$,]', '', regex=True)\<close>: every dollar sign and comma is removed
  from every text entry; a missing entry stays missing.\<close>

definition strip_currency :: "string \<Rightarrow> string" where
  "strip_currency s = filter (\<lambda>c. c \<noteq> CHR ''$'' \<and> c \<noteq> CHR '','') s"

definition replace_currency :: "string option list \<Rightarrow> string option list" where
  "replace_currency vs = map (map_option strip_currency) vs"

text \<open>\<^verbatim>\<open>series.astype(float)\<close> on an object column: \<^verbatim>\<open>float()\<close> of every entry, the
  first failure raising \<^verbatim>\<open>ValueError\<close>.\<close>

fun astype_float :: "string option list \<Rightarrow> error + fl list" where
  "astype_float [] = Inr []"
| "astype_float (None # vs) =
     (case astype_float vs of Inl e \<Rightarrow> Inl e | Inr fs \<Rightarrow> Inr (NaN # fs))"
| "astype_float (Some s # vs) =
     (case py_float s of
        None \<Rightarrow> Inl (ValueError s)
      | Some f \<Rightarrow> (case astype_float vs of Inl e \<Rightarrow> Inl e | Inr fs \<Rightarrow> Inr (f # fs)))"

fun convert_loop :: "string list \<Rightarrow> heap \<Rightarrow> ref \<Rightarrow> heap \<times> (error + unit)" where
  "convert_loop [] h df = (h, Inr ())"
| "convert_loop (col # cols) h df =
     (case getitem (h df) col of
        Inl e \<Rightarrow> (h, Inl e)
      | Inr (ObjectCol vs) \<Rightarrow>
          if any_startswith_dollar vs then
            (case astype_float (replace_currency vs) of
               Inl e \<Rightarrow> (h, Inl e)
             | Inr fs \<Rightarrow> convert_loop cols (h(df := setitem (h df) col (FloatCol fs))) df)
          else convert_loop cols h df
      | Inr _ \<Rightarrow> convert_loop cols h df)"

definition convert_currency_columns :: "heap \<Rightarrow> ref \<Rightarrow> heap \<times> (error + ref)" where
  "convert_currency_columns h df =
     (case convert_loop (map fst (h df)) h df of
        (h', Inl e) \<Rightarrow> (h', Inl e)
      | (h', Inr _) \<Rightarrow> (h', Inr df))"

subsection \<open>What the normalizer computes, column by column\<close>

text \<open>
  The loop body as a function of one column, and the loop as a function of the frame's
  columns from left to right, stopping at the first column that fails to parse. They
  describe the frame the store holds after a call (lemma
  \<open>convert_currency_columns_normalize\<close>).
\<close>

definition normalize_column :: "column \<Rightarrow> error + column" where
  "normalize_column col =
     (case col of
        ObjectCol vs \<Rightarrow>
          if any_startswith_dollar vs then
            (case astype_float (replace_currency vs) of
               Inl e \<Rightarrow> Inl e
             | Inr fs \<Rightarrow> Inr (FloatCol fs))
          else Inr col
      | _ \<Rightarrow> Inr col)"

fun normalize_table :: "table \<Rightarrow> table \<times> (error + unit)" where
  "normalize_table [] = ([], Inr ())"
| "normalize_table ((n, col) # t) =
     (case normalize_column col of
        Inl e \<Rightarrow> ((n, col) # t, Inl e)
      | Inr col' \<Rightarrow> (case normalize_table t of (t', r) \<Rightarrow> ((n, col') # t', r)))"

text \<open>A column the normalizer rewrites: text with at least one entry that begins with a
  dollar sign.\<close>

definition currency_column :: "column \<Rightarrow> bool" where
  "currency_column col = (case col of ObjectCol vs \<Rightarrow> any_startswith_dollar vs | _ \<Rightarrow> False)"


text \<open>A frame with the currency column of the specification's example.\<close>

definition salary_table :: table where
  "salary_table =
     [(''Name'', ObjectCol [Some ''A'', Some ''B'']),
      (''Salary'', ObjectCol [Some ''$1,200'', Some ''$950''])]"



text \<open>
  The effect of the normalizer on the store: every frame is as it was in \<open>h0\<close>, or is the
  normalized form of what it was. \<open>store_invariant\<close> adds that the column labels of every
  frame of \<open>h0\<close> are distinct.
\<close>

definition currency_normalized :: "heap \<Rightarrow> heap \<Rightarrow> bool" where
  "currency_normalized h0 h = (\<forall>df. h df = h0 df \<or> h df = fst (normalize_table (h0 df)))"

definition store_invariant :: "heap \<Rightarrow> heap \<Rightarrow> bool" where
  "store_invariant h0 h = ((\<forall>df. distinct (map fst (h0 df))) \<and> currency_normalized h0 h)"

section \<open>Derived frames\<close>

text \<open>
  Frames that the views build from the loaded ones (by \<^verbatim>\<open>pd.concat\<close>, Boolean
  indexing, \<^verbatim>\<open>transpose\<close>) are only read and displayed. They are modelled by their
  cells: a cell is the Python scalar the frame holds at that place. Each column carries
  the dtype pandas gives it, which decides whether integers are stored as floats. Row
  labels are not modelled: no statement of the two scripts reads them.
\<close>

datatype cell = Str string | Num fl | IntV int | BoolV bool

datatype dtype = Object | Float64 | Int64 | BoolT

type_synonym frame = "(string \<times> dtype \<times> cell list) list"

definition cells_of :: "column \<Rightarrow> cell list" where
  "cells_of col =
     (case col of
        ObjectCol vs \<Rightarrow> map (\<lambda>v. case v of None \<Rightarrow> Num NaN | Some s \<Rightarrow> Str s) vs
      | FloatCol fs \<Rightarrow> map Num fs
      | IntCol ns \<Rightarrow> map IntV ns
      | BoolCol bs \<Rightarrow> map BoolV bs)"

definition dtype_of :: "column \<Rightarrow> dtype" where
  "dtype_of col =
     (case col of ObjectCol _ \<Rightarrow> Object | FloatCol _ \<Rightarrow> Float64 | IntCol _ \<Rightarrow> Int64
      | BoolCol _ \<Rightarrow> BoolT)"

definition frame_of :: "table \<Rightarrow> frame" where
  "frame_of t = map (\<lambda>(n, col). (n, dtype_of col, cells_of col)) t"

text \<open>\<^verbatim>\<open>len(df)\<close>: all columns of a frame have the same length.\<close>

definition nrows :: "table \<Rightarrow> nat" where
  "nrows t = (case t of [] \<Rightarrow> 0 | (n, col) # _ \<Rightarrow> length (cells_of col))"

definition frame_nrows :: "frame \<Rightarrow> nat" where
  "frame_nrows f = (case f of [] \<Rightarrow> 0 | (n, d, cs) # _ \<Rightarrow> length cs)"

text \<open>\<^verbatim>\<open>df.empty\<close>: no column or no row.\<close>

definition frame_empty :: "frame \<Rightarrow> bool" where
  "frame_empty f = (f = [] \<or> frame_nrows f = 0)"

fun frame_getitem :: "frame \<Rightarrow> string \<Rightarrow> error + cell list" where
  "frame_getitem [] c = Inl (KeyError c)"
| "frame_getitem ((n, d, cs) # f) c = (if n = c then Inr cs else frame_getitem f c)"

text \<open>\<^verbatim>\<open>series.unique()\<close>: the distinct values in order of first appearance.\<close>

fun unique_from :: "'a list \<Rightarrow> 'a list \<Rightarrow> 'a list" where
  "unique_from seen [] = []"
| "unique_from seen (x # xs) =
     (if x \<in> set seen then unique_from seen xs else x # unique_from (x # seen) xs)"

definition unique :: "'a list \<Rightarrow> 'a list" where
  "unique xs = unique_from [] xs"

subsection \<open>\<^verbatim>\<open>pd.concat\<close>\<close>

text \<open>
  \<^verbatim>\<open>pd.concat(dfs)\<close> stacks the frames: the columns are the union of the frames' columns
  in order of first appearance, a frame that lacks a column contributes \<^verbatim>\<open>NaN\<close> for
  each of its rows. The dtype of a result column is the common one when all parts agree
  and none is missing, \<^verbatim>\<open>float64\<close> for integers mixed with floats or with missing
  parts, \<^verbatim>\<open>object\<close> otherwise. An empty list raises \<^verbatim>\<open>ValueError\<close>.
\<close>

definition common_dtype :: "dtype option list \<Rightarrow> dtype" where
  "common_dtype ds =
     (if list_all (\<lambda>d. d = Some Int64) ds then Int64
      else if list_all (\<lambda>d. d = Some BoolT) ds then BoolT
      else if list_all (\<lambda>d. d = Some Int64 \<or> d = Some Float64 \<or> d = None) ds then Float64
      else Object)"

definition cast_cell :: "dtype \<Rightarrow> cell \<Rightarrow> cell" where
  "cast_cell d c =
     (case d of
        Float64 \<Rightarrow> (case c of IntV i \<Rightarrow> Num (Fin (of_int i)) | _ \<Rightarrow> c)
      | _ \<Rightarrow> c)"

definition column_dtype :: "table \<Rightarrow> string \<Rightarrow> dtype option" where
  "column_dtype t c = (case getitem t c of Inl _ \<Rightarrow> None | Inr col \<Rightarrow> Some (dtype_of col))"

definition column_block :: "table \<Rightarrow> string \<Rightarrow> cell list" where
  "column_block t c =
     (case getitem t c of Inl _ \<Rightarrow> replicate (nrows t) (Num NaN) | Inr col \<Rightarrow> cells_of col)"

definition pd_concat :: "table list \<Rightarrow> error + frame" where
  "pd_concat dfs =
     (if dfs = [] then Inl (ValueError ''No objects to concatenate'')
      else Inr (map (\<lambda>c. let d = common_dtype (map (\<lambda>t. column_dtype t c) dfs)
                         in (c, d, map (cast_cell d) (concat (map (\<lambda>t. column_block t c) dfs))))
                  (unique (concat (map (map fst) dfs)))))"

subsection \<open>Row selection and transposition\<close>

text \<open>\<^verbatim>\<open>df[mask]\<close> for a Boolean mask with one entry per row.\<close>

definition select_rows :: "bool list \<Rightarrow> frame \<Rightarrow> frame" where
  "select_rows keep f = map (\<lambda>(n, d, cs). (n, d, map snd (filter fst (zip keep cs)))) f"

text \<open>\<^verbatim>\<open>series.isin(names)\<close> for a list of player names.\<close>

definition isin :: "cell list \<Rightarrow> string list \<Rightarrow> bool list" where
  "isin cs names = map (\<lambda>c. c \<in> Str ` set names) cs"

text \<open>\<^verbatim>\<open>series == name\<close>.\<close>

definition eq_name :: "cell list \<Rightarrow> string \<Rightarrow> bool list" where
  "eq_name cs name = map (\<lambda>c. c = Str name) cs"

text \<open>
  \<^verbatim>\<open>df.set_index("Name").transpose()\<close>: the entries of the \<^verbatim>\<open>Name\<close> column label the
  columns of the result, the other column labels its rows.
\<close>

record tframe =
  tcolumns :: "cell list"
  tindex :: "string list"
  tvalues :: "cell list list"

definition set_index_transpose :: "frame \<Rightarrow> string \<Rightarrow> error + tframe" where
  "set_index_transpose f name =
     (case frame_getitem f name of
        Inl e \<Rightarrow> Inl e
      | Inr labels \<Rightarrow>
          (let rest = filter (\<lambda>(n, d, cs). n \<noteq> name) f;
               d = common_dtype (map (\<lambda>(n, d, cs). Some d) rest)
           in Inr \<lparr>tcolumns = labels, tindex = map fst rest,
                   tvalues = map (\<lambda>(n, d', cs). map (cast_cell d) cs) rest\<rparr>))"

section \<open>Sorting\<close>

text \<open>
  \<^verbatim>\<open>df.sort_values(by=stat, ascending=False)\<close> with the default
  \<^verbatim>\<open>kind='quicksort'\<close> and \<^verbatim>\<open>na_position='last'\<close>. pandas computes the row order in
  \<^verbatim>\<open>nargsort\<close>: the missing values are set aside, the others are reversed for a
  descending sort, handed to the array library's \<^verbatim>\<open>argsort\<close>, and the positions it
  returns are reversed again; the rows with a missing value follow. The array library's
  routine is a parameter of the model: what it promises is stated in \<open>sorts\<close>, and its
  order among equal keys is its own.

  Sort keys: a number is compared by value (with the infinities at the ends), text by
  code points; a column holds only one of the two kinds.
\<close>

type_synonym key = "(int \<times> rat) \<times> string"

definition fl_key :: "fl \<Rightarrow> key option" where
  "fl_key x =
     (case x of
        NaN \<Rightarrow> None
      | Fin r \<Rightarrow> Some ((0, r), [])
      | PInf \<Rightarrow> Some ((1, 0), [])
      | NInf \<Rightarrow> Some ((- 1, 0), []))"

definition sort_keys :: "column \<Rightarrow> key option list" where
  "sort_keys col =
     (case col of
        ObjectCol vs \<Rightarrow> map (map_option (\<lambda>s. ((0, 0), s))) vs
      | FloatCol fs \<Rightarrow> map fl_key fs
      | IntCol ns \<Rightarrow> map (\<lambda>i. Some ((0, of_int i), [])) ns
      | BoolCol bs \<Rightarrow> map (\<lambda>b. Some ((0, if b then 1 else 0), [])) bs)"

definition nargsort :: "(key list \<Rightarrow> nat list) \<Rightarrow> key option list \<Rightarrow> bool \<Rightarrow> nat list" where
  "nargsort argsort items ascending =
     (let isna = map (\<lambda>k. k = None) items;
          idx = [0..<length items];
          nonnan = concat (map (\<lambda>k. case k of None \<Rightarrow> [] | Some x \<Rightarrow> [x]) items);
          nonnan_idx = map snd (filter (\<lambda>(m, i). \<not> m) (zip isna idx));
          nan_idx = map snd (filter (\<lambda>(m, i). m) (zip isna idx));
          nonnan' = (if ascending then nonnan else rev nonnan);
          nonnan_idx' = (if ascending then nonnan_idx else rev nonnan_idx);
          indexer = map (\<lambda>j. nonnan_idx' ! j) (argsort nonnan');
          indexer' = (if ascending then indexer else rev indexer)
      in indexer' @ nan_idx)"

text \<open>\<^verbatim>\<open>df.take(indexer)\<close>: the rows at the given positions, in that order.\<close>

definition take_rows :: "nat list \<Rightarrow> column \<Rightarrow> column" where
  "take_rows idx col =
     (case col of
        ObjectCol vs \<Rightarrow> ObjectCol (map (\<lambda>i. vs ! i) idx)
      | FloatCol fs \<Rightarrow> FloatCol (map (\<lambda>i. fs ! i) idx)
      | IntCol ns \<Rightarrow> IntCol (map (\<lambda>i. ns ! i) idx)
      | BoolCol bs \<Rightarrow> BoolCol (map (\<lambda>i. bs ! i) idx))"

definition sort_values ::
  "(key list \<Rightarrow> nat list) \<Rightarrow> table \<Rightarrow> string \<Rightarrow> bool \<Rightarrow> error + table" where
  "sort_values argsort df by ascending =
     (case getitem df by of
        Inl e \<Rightarrow> Inl e
      | Inr col \<Rightarrow>
          (let indexer = nargsort argsort (sort_keys col) ascending
           in Inr (map (\<lambda>(n, c). (n, take_rows indexer c)) df)))"

text \<open>\<^verbatim>\<open>df.head(n)\<close>.\<close>

definition take_col :: "nat \<Rightarrow> column \<Rightarrow> column" where
  "take_col n col =
     (case col of
        ObjectCol vs \<Rightarrow> ObjectCol (take n vs)
      | FloatCol fs \<Rightarrow> FloatCol (take n fs)
      | IntCol ns \<Rightarrow> IntCol (take n ns)
      | BoolCol bs \<Rightarrow> BoolCol (take n bs))"

definition head :: "nat \<Rightarrow> table \<Rightarrow> table" where
  "head n df = map (\<lambda>(c, col). (c, take_col n col)) df"


text \<open>A stable routine (\<^verbatim>\<open>kind='stable'\<close>): equal keys keep their order.\<close>

definition stable_argsort :: "key list \<Rightarrow> nat list" where
  "stable_argsort ks = sort_key (\<lambda>i. ks ! i) [0..<length ks]"



section \<open>Loading the data set\<close>

text \<open>
  \<^verbatim>\<open>
  def load_data():
      years = [22, 23, 24, 25]
      data = {"hitters": {}, "pitchers": {}}
      for year in years:
          data["hitters"][year] = {
              "performance": pd.read_csv(f"hitters_{year}.csv").drop(columns=["playerid"], errors="ignore"),
              "contract": pd.read_csv(f"hitters_{year}_contract.csv").drop(...),
          }
          data["pitchers"][year] = {
              "performance": pd.read_csv(f"pitchers_{year}.csv").drop(...),
              "contract": pd.read_csv(f"pitchers_{year}_contract.csv").drop(...),
              "pitches": pd.read_csv(f"pitchers_{year}_pitches.csv").drop(...),
          }
      return data
  \<close>
  The files are the environment of the program: a file name has no file, a file that
  \<^verbatim>\<open>read_csv\<close> rejects, or a file with the frame \<^verbatim>\<open>read_csv\<close> makes of it.
\<close>

datatype csv_file = Malformed | Parsed table

type_synonym files = "string \<Rightarrow> csv_file option"

definition read_csv :: "files \<Rightarrow> string \<Rightarrow> error + table" where
  "read_csv fs name =
     (case fs name of
        None \<Rightarrow> Inl (FileNotFoundError name)
      | Some Malformed \<Rightarrow> Inl (ParserError name)
      | Some (Parsed t) \<Rightarrow> Inr t)"

text \<open>\<^verbatim>\<open>df.drop(columns=["playerid"], errors="ignore")\<close>.\<close>

definition drop_playerid :: "table \<Rightarrow> table" where
  "drop_playerid t = filter (\<lambda>(n, col). n \<noteq> ''playerid'') t"

text \<open>\<^verbatim>\<open>str(n)\<close> for a natural number.\<close>

definition digit_char :: "nat \<Rightarrow> char" where
  "digit_char n = ''0123456789'' ! n"

fun str_nat :: "nat \<Rightarrow> string" where
  "str_nat n = (if n < 10 then [digit_char n] else str_nat (n div 10) @ [digit_char (n mod 10)])"

declare str_nat.simps [simp del]

datatype category = Hitters | Pitchers

datatype kind = Performance | Contract | Pitches

definition kind_key :: "kind \<Rightarrow> string" where
  "kind_key k =
     (case k of Performance \<Rightarrow> ''performance'' | Contract \<Rightarrow> ''contract''
      | Pitches \<Rightarrow> ''pitches'')"

text \<open>The nested dictionary \<^verbatim>\<open>data[category][year][kind]\<close>; its values are the loaded
  frame objects.\<close>

type_synonym dataset = "category \<Rightarrow> nat \<Rightarrow> (kind \<Rightarrow> ref option) option"

definition data_lookup :: "dataset \<Rightarrow> category \<Rightarrow> nat \<Rightarrow> kind \<Rightarrow> error + ref" where
  "data_lookup data c year k =
     (case data c year of
        None \<Rightarrow> Inl (KeyError (str_nat year))
      | Some d \<Rightarrow> (case d k of None \<Rightarrow> Inl (KeyError (kind_key k)) | Some df \<Rightarrow> Inr df))"

text \<open>Reading one file makes a new frame object: the next unused reference.\<close>

definition load_file :: "files \<Rightarrow> string \<Rightarrow> heap \<times> ref \<Rightarrow> error + (heap \<times> ref) \<times> ref" where
  "load_file fs name st =
     (case st of (h, new) \<Rightarrow>
        (case read_csv fs name of
           Inl e \<Rightarrow> Inl e
         | Inr t \<Rightarrow> Inr ((h(new := drop_playerid t), Suc new), new)))"

fun load_years :: "files \<Rightarrow> nat list \<Rightarrow> (heap \<times> ref) \<times> dataset \<Rightarrow> error + (heap \<times> ref) \<times> dataset"
  where
  "load_years fs [] st = Inr st"
| "load_years fs (year # years) (s0, data) =
     (case load_file fs (''hitters_'' @ str_nat year @ ''.csv'') s0 of
        Inl e \<Rightarrow> Inl e
      | Inr (s1, hp) \<Rightarrow>
     (case load_file fs (''hitters_'' @ str_nat year @ ''_contract.csv'') s1 of
        Inl e \<Rightarrow> Inl e
      | Inr (s2, hc) \<Rightarrow>
     (case load_file fs (''pitchers_'' @ str_nat year @ ''.csv'') s2 of
        Inl e \<Rightarrow> Inl e
      | Inr (s3, pp) \<Rightarrow>
     (case load_file fs (''pitchers_'' @ str_nat year @ ''_contract.csv'') s3 of
        Inl e \<Rightarrow> Inl e
      | Inr (s4, pc) \<Rightarrow>
     (case load_file fs (''pitchers_'' @ str_nat year @ ''_pitches.csv'') s4 of
        Inl e \<Rightarrow> Inl e
      | Inr (s5, pt) \<Rightarrow>
          load_years fs years
            (s5, data
               (Hitters := (data Hitters)
                  (year \<mapsto> [Performance \<mapsto> hp, Contract \<mapsto> hc]),
                Pitchers := (data Pitchers)
                  (year \<mapsto> [Performance \<mapsto> pp, Contract \<mapsto> pc, Pitches \<mapsto> pt]))))))))"

definition load_data :: "files \<Rightarrow> error + heap \<times> dataset" where
  "load_data fs =
     (case load_years fs [22, 23, 24, 25] ((\<lambda>_. [], 0), \<lambda>_. Map.empty) of
        Inl e \<Rightarrow> Inl e
      | Inr ((h, new), data) \<Rightarrow> Inr (h, data))"

text \<open>The file names \<open>load_data\<close> reads, in the order it reads them.\<close>

definition year_files :: "nat \<Rightarrow> string list" where
  "year_files year =
     [''hitters_'' @ str_nat year @ ''.csv'',
      ''hitters_'' @ str_nat year @ ''_contract.csv'',
      ''pitchers_'' @ str_nat year @ ''.csv'',
      ''pitchers_'' @ str_nat year @ ''_contract.csv'',
      ''pitchers_'' @ str_nat year @ ''_pitches.csv'']"

definition expected_files :: "string list" where
  "expected_files = concat (map year_files [22, 23, 24, 25])"

text \<open>The first of the given files that is absent or malformed, with the error
  \<^verbatim>\<open>read_csv\<close> raises for it.\<close>

fun first_failure :: "files \<Rightarrow> string list \<Rightarrow> error option" where
  "first_failure fs [] = None"
| "first_failure fs (name # names) =
     (case read_csv fs name of Inl e \<Rightarrow> Some e | Inr _ \<Rightarrow> first_failure fs names)"

section \<open>The pages\<close>

text \<open>
  A run of a script renders elements one after the other and may stop with an uncaught
  exception; what has been rendered by then stays rendered. Neither script has a
  \<^verbatim>\<open>try\<close> statement. An element is a call of the presentation library with the
  arguments the script passes. The widgets return what the user has chosen; the choices
  are the input of a run: \<open>mode\<close> is the choice of data type on every page, and the names
  of the selected players are text, as in every source file.
\<close>

datatype page = Home | SearchCompare | FreeAgents2025 | TopLeaders

datatype mode = PerformanceData | ContractData

record inputs =
  page :: page
  mode :: mode
  selected_years :: "nat list"
  player_type :: category
  selected_players :: "string list"
  selected_year :: nat
  selected_stat :: string

record summary =
  pitch_type :: "string list"
  usage :: "fl list"
  velo :: "cell option list"
  pitch_value :: "cell option list"
  stuff :: "cell option list"

datatype element =
    SidebarTitle string
  | SidebarMarkdown string
  | SidebarRadio string "string list"
  | Title string
  | Markdown string
  | Radio string "string list"
  | Multiselect string "cell list" "cell list" "nat option"
  | Selectbox string "cell list" nat
  | DataEditor frame
  | DataEditorT tframe
  | Warning string
  | AltairChart summary "string list" "string list"

record run =
  heap_after :: heap
  rendered :: "element list"
  raised :: "error option"

definition emit :: "element list \<Rightarrow> heap \<Rightarrow> run" where
  "emit es h = \<lparr>heap_after = h, rendered = es, raised = None\<rparr>"

definition raise :: "error \<Rightarrow> heap \<Rightarrow> run" where
  "raise e h = \<lparr>heap_after = h, rendered = [], raised = Some e\<rparr>"

text \<open>Sequencing: the statements after an exception are not executed.\<close>

definition then_run :: "run \<Rightarrow> (heap \<Rightarrow> run) \<Rightarrow> run" where
  "then_run r f =
     (case raised r of
        Some e \<Rightarrow> r
      | None \<Rightarrow>
          (let r' = f (heap_after r)
           in \<lparr>heap_after = heap_after r', rendered = rendered r @ rendered r',
               raised = raised r'\<rparr>))"

definition page_label :: "page \<Rightarrow> string" where
  "page_label p =
     (case p of Home \<Rightarrow> ''Home'' | SearchCompare \<Rightarrow> ''Search & Compare Free Agents''
      | FreeAgents2025 \<Rightarrow> ''2025 Free Agents'' | TopLeaders \<Rightarrow> ''Top Leaders'')"

definition mode_label :: "mode \<Rightarrow> string" where
  "mode_label m = (case m of PerformanceData \<Rightarrow> ''Performance Data'' | ContractData \<Rightarrow> ''Contract Data'')"

definition category_label :: "category \<Rightarrow> string" where
  "category_label c = (case c of Hitters \<Rightarrow> ''Hitters'' | Pitchers \<Rightarrow> ''Pitchers'')"

text \<open>\<^verbatim>\<open>"performance" if mode == "Performance Data" else "contract"\<close>.\<close>

definition data_type :: "mode \<Rightarrow> kind" where
  "data_type m = (if m = PerformanceData then Performance else Contract)"

text \<open>\<^verbatim>\<open>int(str(year)[-2:])\<close>: the number made of the last two digits.\<close>

definition two_digits :: "nat \<Rightarrow> nat" where
  "two_digits year = year mod 100"

text \<open>\<^verbatim>\<open>sep.join(parts)\<close>.\<close>

fun join :: "string \<Rightarrow> string list \<Rightarrow> string" where
  "join sep [] = []"
| "join sep [x] = x"
| "join sep (x # y # ys) = x @ sep @ join sep (y # ys)"

definition years_text :: "nat list \<Rightarrow> string" where
  "years_text years = join '', '' (map str_nat years)"

definition year_options :: "cell list" where
  "year_options = [IntV 2022, IntV 2023, IntV 2024, IntV 2025]"

definition mode_options :: "string list" where
  "mode_options = [''Performance Data'', ''Contract Data'']"

definition category_options :: "string list" where
  "category_options = [''Hitters'', ''Pitchers'']"

subsection \<open>Sidebar and home page\<close>

definition sidebar :: "element list" where
  "sidebar =
     [SidebarTitle ''MLB Free Agent Analysis'',
      SidebarMarkdown ''***Created and updated by Carly Mitchell. (carlymbaseball@gmail.com)***'',
      SidebarRadio ''Select a Page''
        [''Home'', ''Search & Compare Free Agents'', ''2025 Free Agents'', ''Top Leaders'']]"

definition home_text :: string where
  "home_text = join [CHR 0x0A]
     [[],
      ''        Welcome to the MLB Free Agent Analysis Tool! Use this app to:'',
      ''        - **Search & Compare free agents**: Filter by position, metrics, and performance stats, or compare specific players.'',
      ''        - **Upcoming free agents**: View projections for the 2025 season.'',
      ''        - **Top leaders**: Visualize the top players in various stats by free agency class.'',
      ''        '',
      ''        <br><br>  <!-- Adds extra spacing -->'',
      ''        '',
      ''        ***Data is pulled from [FanGraphs.com](https://www.fangraphs.com) and covers free agents from 2022 - 2025.***  '',
      ''    '']"

definition home :: "heap \<Rightarrow> run" where
  "home h = emit [Title ''MLB Free Agent Analysis Tool'', Markdown home_text] h"

subsection \<open>Search and compare: the combined table\<close>

text \<open>
  \<^verbatim>\<open>
  dfs = []
  for year in selected_years:
      df = data[player_type.lower()][int(str(year)[-2:])][data_type]
      df = convert_currency_columns(df)
      dfs.append(df)
  \<close>
\<close>

fun load_frames ::
  "dataset \<Rightarrow> category \<Rightarrow> kind \<Rightarrow> nat list \<Rightarrow> heap \<Rightarrow> heap \<times> (error + ref list)" where
  "load_frames data c k [] h = (h, Inr [])"
| "load_frames data c k (year # years) h =
     (case data_lookup data c (two_digits year) k of
        Inl e \<Rightarrow> (h, Inl e)
      | Inr df \<Rightarrow>
          (case convert_currency_columns h df of
             (h1, Inl e) \<Rightarrow> (h1, Inl e)
           | (h1, Inr df') \<Rightarrow>
               (case load_frames data c k years h1 of
                  (h2, Inl e) \<Rightarrow> (h2, Inl e)
                | (h2, Inr dfs) \<Rightarrow> (h2, Inr (df' # dfs)))))"

text \<open>
  The part that both scripts share word for word: the controls, the combined table and
  the player selection. What follows it (\<open>rest\<close>) differs between the scripts.
\<close>

definition search_tables :: "inputs \<Rightarrow> dataset \<Rightarrow> (frame \<Rightarrow> heap \<Rightarrow> run) \<Rightarrow> heap \<Rightarrow> run" where
  "search_tables ui data rest h =
     then_run
       (emit [Title ''Search & Compare Free Agents'',
              Radio ''Mode'' mode_options,
              Multiselect ''Select Year(s)'' year_options [IntV 2025] None,
              Radio ''Select Player Type'' category_options] h)
       (\<lambda>h. case load_frames data (player_type ui) (data_type (mode ui)) (selected_years ui) h of
          (h1, Inl e) \<Rightarrow> raise e h1
        | (h1, Inr dfs) \<Rightarrow>
            (case pd_concat (map h1 dfs) of
               Inl e \<Rightarrow> raise e h1
             | Inr combined_df \<Rightarrow>
                 then_run
                   (emit [Markdown (''### '' @ category_label (player_type ui) @ '' '' @
                            mode_label (mode ui) @ '' for '' @ years_text (selected_years ui)),
                          DataEditor combined_df] h1)
                   (\<lambda>h. case frame_getitem combined_df ''Name'' of
                      Inl e \<Rightarrow> raise e h
                    | Inr names \<Rightarrow>
                        then_run
                          (emit [Multiselect ''Select Players to Compare (Up to 5)''
                                   (unique names) (take 2 (unique names)) (Some 5)] h)
                          (rest combined_df))))"

subsection \<open>Search and compare in \<^verbatim>\<open>app.py\<close>\<close>

text \<open>
  \<^verbatim>\<open>
  if len(selected_players) < 2:
      st.warning("Please select at least 2 players for comparison.")
  else:
      st.markdown(f"### {player_type} Comparison for {', '.join(map(str, selected_years))}")
      comparison_df = combined_df[combined_df["Name"].isin(selected_players)].set_index("Name").transpose()
      st.data_editor(comparison_df, use_container_width=True)
  \<close>
\<close>

definition comparison :: "inputs \<Rightarrow> frame \<Rightarrow> heap \<Rightarrow> run" where
  "comparison ui combined_df h =
     (if length (selected_players ui) < 2
      then emit [Warning ''Please select at least 2 players for comparison.''] h
      else
        then_run
          (emit [Markdown (''### '' @ category_label (player_type ui) @ '' Comparison for '' @
                   years_text (selected_years ui))] h)
          (\<lambda>h. case frame_getitem combined_df ''Name'' of
             Inl e \<Rightarrow> raise e h
           | Inr names \<Rightarrow>
               (case set_index_transpose
                       (select_rows (isin names (selected_players ui)) combined_df) ''Name'' of
                  Inl e \<Rightarrow> raise e h
                | Inr comparison_df \<Rightarrow> emit [DataEditorT comparison_df] h)))"

text \<open>
  \<^verbatim>\<open>
  if player_type == "Pitchers":
      st.markdown("### Pitch Type Usage & Performance")
      pitch_dfs = []
      for year in selected_years:
          pitch_df = data["pitchers"][int(str(year)[-2:])]["pitches"]
          pitch_df = convert_currency_columns(pitch_df)
          pitch_dfs.append(pitch_df)
      selected_pitch_data = pd.concat(pitch_dfs)
      selected_pitch_data = selected_pitch_data[selected_pitch_data["Name"].isin(selected_players)]
      if not selected_pitch_data.empty:
          st.data_editor(selected_pitch_data, use_container_width=True)
      else:
          st.warning("No pitch type data available for the selected players.")
  \<close>
\<close>

definition pitch_table :: "inputs \<Rightarrow> dataset \<Rightarrow> heap \<Rightarrow> run" where
  "pitch_table ui data h =
     (if player_type ui = Pitchers then
        then_run
          (emit [Markdown ''### Pitch Type Usage & Performance''] h)
          (\<lambda>h. case load_frames data Pitchers Pitches (selected_years ui) h of
             (h1, Inl e) \<Rightarrow> raise e h1
           | (h1, Inr pitch_dfs) \<Rightarrow>
               (case pd_concat (map h1 pitch_dfs) of
                  Inl e \<Rightarrow> raise e h1
                | Inr pitch_data \<Rightarrow>
                    (case frame_getitem pitch_data ''Name'' of
                       Inl e \<Rightarrow> raise e h1
                     | Inr names \<Rightarrow>
                         (let selected_pitch_data =
                                select_rows (isin names (selected_players ui)) pitch_data
                          in if \<not> frame_empty selected_pitch_data
                             then emit [DataEditor selected_pitch_data] h1
                             else emit [Warning
                               ''No pitch type data available for the selected players.''] h1))))
      else emit [] h)"

definition search_compare_app :: "inputs \<Rightarrow> dataset \<Rightarrow> heap \<Rightarrow> run" where
  "search_compare_app ui data h =
     search_tables ui data
       (\<lambda>combined_df h. then_run (comparison ui combined_df h) (pitch_table ui data)) h"

subsection \<open>Search and compare in \<^verbatim>\<open>fa_tracker.py\<close>: the pitch mix\<close>

definition pitch_types :: "string list" where
  "pitch_types = [''4S'', ''CT'', ''2S'', ''CH'', ''SL'', ''CB'', ''SPLT'', ''KCB'', ''XX'']"

definition pitch_colors :: "(string \<times> string) list" where
  "pitch_colors =
     [(''4S'', ''red''), (''2S'', ''yellow''), (''CH'', ''purple''), (''SL'', ''green''),
      (''CB'', ''blue''), (''CT'', ''orange''), (''SPLT'', ''pink''), (''KCB'', ''brown''),
      (''XX'', ''gray'')]"

text \<open>
  \<^verbatim>\<open>
  for year in selected_years:
      pitch_df = data["pitchers"][int(str(year)[-2:])]["pitches"]
      pitch_df = convert_currency_columns(pitch_df)
      pitch_df.columns = pitch_df.columns.str.strip()
      selected_pitch_data.append(pitch_df)
  \<close>
  The assignment to \<^verbatim>\<open>pitch_df.columns\<close> renames the columns of the loaded frame itself.
\<close>

definition strip_columns :: "table \<Rightarrow> table" where
  "strip_columns t = map (\<lambda>(n, col). (strip n, col)) t"

fun load_pitch_frames :: "dataset \<Rightarrow> nat list \<Rightarrow> heap \<Rightarrow> heap \<times> (error + ref list)" where
  "load_pitch_frames data [] h = (h, Inr [])"
| "load_pitch_frames data (year # years) h =
     (case data_lookup data Pitchers (two_digits year) Pitches of
        Inl e \<Rightarrow> (h, Inl e)
      | Inr df \<Rightarrow>
          (case convert_currency_columns h df of
             (h1, Inl e) \<Rightarrow> (h1, Inl e)
           | (h1, Inr pitch_df) \<Rightarrow>
               (case load_pitch_frames data years
                       (h1(pitch_df := strip_columns (h1 pitch_df))) of
                  (h2, Inl e) \<Rightarrow> (h2, Inl e)
                | (h2, Inr dfs) \<Rightarrow> (h2, Inr (pitch_df # dfs)))))"

text \<open>
  \<^verbatim>\<open>{pitch: pitcher_data[label(pitch)].values[0]
     for pitch in pitch_types if label(pitch) in pitcher_data.columns}\<close>:
  the entries of the pitcher's first row, keyed by pitch type. The frame has a row where
  this is computed (the script has tested \<^verbatim>\<open>pitcher_data.empty\<close>), so every column
  that is present has a first entry.
\<close>

fun first_values :: "frame \<Rightarrow> (string \<Rightarrow> string) \<Rightarrow> string list \<Rightarrow> (string \<times> cell) list" where
  "first_values pitcher_data label [] = []"
| "first_values pitcher_data label (pitch # pitches) =
     (case frame_getitem pitcher_data (label pitch) of
        Inr (v # _) \<Rightarrow> (pitch, v) # first_values pitcher_data label pitches
      | _ \<Rightarrow> first_values pitcher_data label pitches)"

text \<open>
  \<^verbatim>\<open>
  pitch_usage = {k: float(str(v).replace("%", "").strip()) for k, v in pitch_usage.items()
                 if isinstance(v, str) and "%" in v
                    and str(v).replace("%", "").replace(".", "").isdigit()}
  \<close>
\<close>

definition usage_accepted :: "cell \<Rightarrow> bool" where
  "usage_accepted v =
     (case v of
        Str s \<Rightarrow> CHR ''%'' \<in> set s \<and> isdigit (remove_char CHR ''.'' (remove_char CHR ''%'' s))
      | _ \<Rightarrow> False)"

fun convert_usage :: "(string \<times> cell) list \<Rightarrow> error + (string \<times> fl) list" where
  "convert_usage [] = Inr []"
| "convert_usage ((k, v) # kvs) =
     (if usage_accepted v then
        (case v of
           Str s \<Rightarrow>
             (case py_float (strip (remove_char CHR ''%'' s)) of
                None \<Rightarrow> Inl (ValueError (strip (remove_char CHR ''%'' s)))
              | Some x \<Rightarrow>
                  (case convert_usage kvs of
                     Inl e \<Rightarrow> Inl e
                   | Inr rest \<Rightarrow> Inr ((k, x) # rest)))
         | _ \<Rightarrow> convert_usage kvs)
      else convert_usage kvs)"

text \<open>
  \<^verbatim>\<open>
  pitch_summary = pd.DataFrame({
      "Pitch Type": list(pitch_usage.keys()),
      "Usage%": list(pitch_usage.values()),
      "Velo": [pitch_velo.get(k, None) for k in pitch_usage.keys()],
      "Value": [pitch_value.get(k, None) for k in pitch_usage.keys()],
      "Stf+": [pitch_stuff.get(k, None) for k in pitch_usage.keys()]
  })
  \<close>
\<close>

definition pitch_summary ::
  "(string \<times> fl) list \<Rightarrow> (string \<times> cell) list \<Rightarrow> (string \<times> cell) list \<Rightarrow>
   (string \<times> cell) list \<Rightarrow> summary" where
  "pitch_summary pitch_usage pitch_velo pitch_val pitch_stuff =
     \<lparr>pitch_type = map fst pitch_usage,
      usage = map snd pitch_usage,
      velo = map (\<lambda>k. map_of pitch_velo k) (map fst pitch_usage),
      pitch_value = map (\<lambda>k. map_of pitch_val k) (map fst pitch_usage),
      stuff = map (\<lambda>k. map_of pitch_stuff k) (map fst pitch_usage)\<rparr>"

text \<open>The body of \<^verbatim>\<open>for pitcher in selected_players\<close>.\<close>

definition pitcher_chart :: "frame \<Rightarrow> string \<Rightarrow> heap \<Rightarrow> run" where
  "pitcher_chart selected_pitch_data pitcher h =
     then_run
       (emit [Markdown (''#### '' @ pitcher @ [CHR 0x27] @ ''s Pitch Usage'')] h)
       (\<lambda>h. case frame_getitem selected_pitch_data ''Name'' of
          Inl e \<Rightarrow> raise e h
        | Inr names \<Rightarrow>
            (let pitcher_data = select_rows (eq_name names pitcher) selected_pitch_data
             in if frame_empty pitcher_data
                then emit [Warning (''No pitch data available for '' @ pitcher @ ''.'')] h
                else
                  (let pitch_usage = first_values pitcher_data (\<lambda>p. p @ ''%'') pitch_types;
                       pitch_velo = first_values pitcher_data (\<lambda>p. ''v'' @ p) pitch_types;
                       pitch_val = first_values pitcher_data (\<lambda>p. ''w'' @ p) pitch_types;
                       pitch_stuff = first_values pitcher_data (\<lambda>p. ''Stf+ '' @ p) pitch_types
                   in case convert_usage pitch_usage of
                        Inl e \<Rightarrow> raise e h
                      | Inr pitch_usage' \<Rightarrow>
                          if pitch_usage' = []
                          then emit [Warning (''No valid pitch usage data available for '' @
                                       pitcher @ ''.'')] h
                          else emit [AltairChart
                                       (pitch_summary pitch_usage' pitch_velo pitch_val pitch_stuff)
                                       (map fst pitch_colors) (map snd pitch_colors)] h)))"

fun pitcher_charts :: "frame \<Rightarrow> string list \<Rightarrow> heap \<Rightarrow> run" where
  "pitcher_charts selected_pitch_data [] h = emit [] h"
| "pitcher_charts selected_pitch_data (pitcher # pitchers) h =
     then_run (pitcher_chart selected_pitch_data pitcher h)
       (pitcher_charts selected_pitch_data pitchers)"

definition pitch_mix :: "inputs \<Rightarrow> dataset \<Rightarrow> heap \<Rightarrow> run" where
  "pitch_mix ui data h =
     (if player_type ui = Pitchers then
        then_run
          (emit [Markdown ''### Pitch Type Usage & Performance''] h)
          (\<lambda>h. case load_pitch_frames data (selected_years ui) h of
             (h1, Inl e) \<Rightarrow> raise e h1
           | (h1, Inr pitch_dfs) \<Rightarrow>
               (case pd_concat (map h1 pitch_dfs) of
                  Inl e \<Rightarrow> raise e h1
                | Inr pitch_data \<Rightarrow>
                    (case frame_getitem pitch_data ''Name'' of
                       Inl e \<Rightarrow> raise e h1
                     | Inr names \<Rightarrow>
                         (let selected_pitch_data =
                                select_rows (isin names (selected_players ui)) pitch_data
                          in if \<not> frame_empty selected_pitch_data
                             then pitcher_charts selected_pitch_data (selected_players ui) h1
                             else emit [Warning
                               ''No pitch type data available for the selected players.''] h1))))
      else emit [] h)"

definition search_compare_fa :: "inputs \<Rightarrow> dataset \<Rightarrow> heap \<Rightarrow> run" where
  "search_compare_fa ui data h = search_tables ui data (\<lambda>combined_df. pitch_mix ui data) h"

subsection \<open>The 2025 free agents\<close>

definition free_agents_2025 :: "inputs \<Rightarrow> dataset \<Rightarrow> heap \<Rightarrow> run" where
  "free_agents_2025 ui data h =
     then_run
       (emit [Title ''2025 Free Agents - 2024 Data'', Radio ''View Data Type'' mode_options] h)
       (\<lambda>h. case data_lookup data Hitters 25 (data_type (mode ui)) of
          Inl e \<Rightarrow> raise e h
        | Inr hitters_2025 \<Rightarrow>
       (case data_lookup data Pitchers 25 (data_type (mode ui)) of
          Inl e \<Rightarrow> raise e h
        | Inr pitchers_2025 \<Rightarrow>
       (case convert_currency_columns h hitters_2025 of
          (h1, Inl e) \<Rightarrow> raise e h1
        | (h1, Inr hitters_2025) \<Rightarrow>
       (case convert_currency_columns h1 pitchers_2025 of
          (h2, Inl e) \<Rightarrow> raise e h2
        | (h2, Inr pitchers_2025) \<Rightarrow>
            emit [Markdown ''### Hitters'', DataEditor (frame_of (h2 hitters_2025)),
                  Markdown ''### Pitchers'', DataEditor (frame_of (h2 pitchers_2025))] h2))))"

subsection \<open>Top leaders\<close>

text \<open>\<^verbatim>\<open>options.index("WAR") if "WAR" in options else 0\<close>.\<close>

fun index_of :: "string \<Rightarrow> string list \<Rightarrow> nat" where
  "index_of x [] = 0"
| "index_of x (y # ys) = (if y = x then 0 else Suc (index_of x ys))"

definition stat_index :: "string list \<Rightarrow> nat" where
  "stat_index options = (if ''WAR'' \<in> set options then index_of ''WAR'' options else 0)"

text \<open>
  \<^verbatim>\<open>
  top_leaders = df.sort_values(by=selected_stat, ascending=False).head(10)
  \<close>
\<close>

definition top_leaders :: "(key list \<Rightarrow> nat list) \<Rightarrow> table \<Rightarrow> string \<Rightarrow> error + table" where
  "top_leaders argsort df stat =
     (case sort_values argsort df stat False of
        Inl e \<Rightarrow> Inl e
      | Inr sorted_df \<Rightarrow> Inr (head 10 sorted_df))"

definition top_leaders_page ::
  "(key list \<Rightarrow> nat list) \<Rightarrow> inputs \<Rightarrow> dataset \<Rightarrow> heap \<Rightarrow> run" where
  "top_leaders_page argsort ui data h =
     then_run
       (emit [Title ''Top Leaders by Free Agency Class'',
              Selectbox ''Select Year'' year_options 3,
              Radio ''Select Player Type'' category_options,
              Radio ''View Data Type'' mode_options] h)
       (\<lambda>h. case data_lookup data (player_type ui) (two_digits (selected_year ui))
                    (data_type (mode ui)) of
          Inl e \<Rightarrow> raise e h
        | Inr df \<Rightarrow>
       (case convert_currency_columns h df of
          (h1, Inl e) \<Rightarrow> raise e h1
        | (h1, Inr df) \<Rightarrow>
            then_run
              (emit [Selectbox ''Select a Stat'' (map Str (tl (map fst (h1 df))))
                       (stat_index (tl (map fst (h1 df))))] h1)
              (\<lambda>h. case top_leaders argsort (h df) (selected_stat ui) of
                 Inl e \<Rightarrow> raise e h
               | Inr leaders \<Rightarrow>
                   then_run
                     (emit [DataEditor (frame_of leaders)] h)
                     (\<lambda>h. if mode ui = PerformanceData \<and> player_type ui = Pitchers then
                        then_run
                          (emit [Markdown ''### Pitch Type Usage & Performance''] h)
                          (\<lambda>h. case data_lookup data Pitchers (two_digits (selected_year ui))
                                       Pitches of
                             Inl e \<Rightarrow> raise e h
                           | Inr pitch_df \<Rightarrow>
                               (case convert_currency_columns h pitch_df of
                                  (h1, Inl e) \<Rightarrow> raise e h1
                                | (h1, Inr pitch_df) \<Rightarrow>
                                    emit [DataEditor (frame_of (h1 pitch_df))] h1))
                      else emit [] h))))"

subsection \<open>The two scripts\<close>

text \<open>
  Both scripts load the data set first (\<^verbatim>\<open>data = load_data()\<close> at module level), then
  render the sidebar and the chosen page. \<^verbatim>\<open>app.py\<close> selects the page with one
  \<^verbatim>\<open>if\<close>/\<^verbatim>\<open>elif\<close> chain; \<^verbatim>\<open>fa_tracker.py\<close> has an \<^verbatim>\<open>if\<close> for the home page followed
  by a second chain for the other pages.
\<close>

definition app_pages :: "(key list \<Rightarrow> nat list) \<Rightarrow> inputs \<Rightarrow> dataset \<Rightarrow> heap \<Rightarrow> run" where
  "app_pages argsort ui data h =
     then_run (emit sidebar h)
       (\<lambda>h. if page ui = Home then home h
             else if page ui = SearchCompare then search_compare_app ui data h
             else if page ui = FreeAgents2025 then free_agents_2025 ui data h
             else if page ui = TopLeaders then top_leaders_page argsort ui data h
             else emit [] h)"

definition fa_tracker_pages :: "(key list \<Rightarrow> nat list) \<Rightarrow> inputs \<Rightarrow> dataset \<Rightarrow> heap \<Rightarrow> run" where
  "fa_tracker_pages argsort ui data h =
     then_run (emit sidebar h)
       (\<lambda>h. then_run (if page ui = Home then home h else emit [] h)
          (\<lambda>h. if page ui = SearchCompare then search_compare_fa ui data h
                else if page ui = FreeAgents2025 then free_agents_2025 ui data h
                else if page ui = TopLeaders then top_leaders_page argsort ui data h
                else emit [] h))"

definition app :: "(key list \<Rightarrow> nat list) \<Rightarrow> files \<Rightarrow> inputs \<Rightarrow> run" where
  "app argsort fs ui =
     (case load_data fs of
        Inl e \<Rightarrow> raise e (\<lambda>_. [])
      | Inr (h, data) \<Rightarrow> app_pages argsort ui data h)"

definition fa_tracker :: "(key list \<Rightarrow> nat list) \<Rightarrow> files \<Rightarrow> inputs \<Rightarrow> run" where
  "fa_tracker argsort fs ui =
     (case load_data fs of
        Inl e \<Rightarrow> raise e (\<lambda>_. [])
      | Inr (h, data) \<Rightarrow> fa_tracker_pages argsort ui data h)"

section \<open>Example inputs\<close>

text \<open>The choices of a user who opens the home page.\<close>

definition home_inputs :: inputs where
  "home_inputs =
     \<lparr>page = Home, mode = PerformanceData, selected_years = [2025], player_type = Hitters,
      selected_players = [], selected_year = 2025, selected_stat = ''WAR''\<rparr>"






text \<open>Files that all hold the same small table, and the choices of a user who selects one
  hitter on the search page.\<close>

definition uniform_files :: files where
  "uniform_files =
     (\<lambda>name. Some (Parsed [(''Name'', ObjectCol [Some ''A'', Some ''B'']),
                            (''WAR'', FloatCol [Fin 2, Fin 3])]))"

definition one_player_inputs :: inputs where
  "one_player_inputs =
     \<lparr>page = SearchCompare, mode = PerformanceData, selected_years = [2025],
      player_type = Hitters, selected_players = [''A''], selected_year = 2025,
      selected_stat = ''WAR''\<rparr>"

text \<open>Pitch data of one pitcher: the slider of the specification's example, and usage stored
  as numbers; files that all hold a table with a usage entry that has two decimal points,
  and the choices of a user who selects that pitcher.\<close>

definition slider_frame :: frame where
  "slider_frame =
     [(''Name'', Object, [Str ''P'']),
      (''SL%'', Object, [Str ''45.0%'']),
      (''vSL'', Float64, [Num (Fin (882 / 10))])]"


definition two_dots_files :: files where
  "two_dots_files =
     (\<lambda>name. Some (Parsed [(''Name'', ObjectCol [Some ''P'']),
                            (''SL%'', ObjectCol [Some ''1.2.3%'']),
                            (''vSL'', FloatCol [Fin (882 / 10)])]))"

definition pitcher_inputs :: inputs where
  "pitcher_inputs =
     \<lparr>page = SearchCompare, mode = PerformanceData, selected_years = [2025],
      player_type = Pitchers, selected_players = [''P''], selected_year = 2025,
      selected_stat = ''WAR''\<rparr>"

text \<open>A store in which every frame has a currency column, a data set for the season 2025, and
  the choices of a user who opens the 2025 free agents with contract data.\<close>

definition seasons_heap :: heap where
  "seasons_heap = (\<lambda>_. salary_table)"

definition seasons_data :: dataset where
  "seasons_data =
     (\<lambda>c. Map.empty)
       (Hitters := [25 \<mapsto> [Performance \<mapsto> 0, Contract \<mapsto> 1]],
        Pitchers := [25 \<mapsto> [Performance \<mapsto> 2, Contract \<mapsto> 3, Pitches \<mapsto> 4]])"

definition snapshot_inputs :: inputs where
  "snapshot_inputs =
     \<lparr>page = FreeAgents2025, mode = ContractData, selected_years = [2025],
      player_type = Hitters, selected_players = [], selected_year = 2025,
      selected_stat = ''WAR''\<rparr>"

section \<open>Properties of the currency normalizer\<close>

lemma getitem_append_fresh:
  "c \<notin> fst ` set pre \<Longrightarrow> getitem (pre @ t) c = getitem t c"
  by (induction pre) auto

lemma setitem_append_fresh:
  "c \<notin> fst ` set pre \<Longrightarrow> setitem (pre @ (c, col) # t) c v = pre @ (c, v) # t"
  by (induction pre) auto

lemma heap_upd_same: "h df = t \<Longrightarrow> h(df := t) = h"
  by auto

lemma convert_loop_step:
  "getitem (h df) n = Inr col \<Longrightarrow>
   convert_loop (n # ns) h df =
     (case normalize_column col of
        Inl e \<Rightarrow> (h, Inl e)
      | Inr col' \<Rightarrow>
          convert_loop ns (if col' = col then h else h(df := setitem (h df) n col')) df)"
  by (cases col) (auto simp: normalize_column_def split: sum.splits)

lemma convert_loop_normalize:
  "h df = pre @ suf \<Longrightarrow> distinct (map fst (pre @ suf)) \<Longrightarrow>
   convert_loop (map fst suf) h df =
     (h(df := pre @ fst (normalize_table suf)), snd (normalize_table suf))"
proof (induction suf arbitrary: h pre)
  case Nil
  then show ?case by (simp add: heap_upd_same)
next
  case (Cons a suf)
  obtain n col where a: "a = (n, col)" by (cases a)
  from Cons.prems a have fresh: "n \<notin> fst ` set pre" by auto
  have get: "getitem (h df) n = Inr col"
    using Cons.prems(1) a fresh by (simp add: getitem_append_fresh)
  note step = convert_loop_step[of h df n col "map fst suf", OF get]
  show ?case
  proof (cases "normalize_column col")
    case (Inl e)
    then show ?thesis using step a Cons.prems(1) by (simp add: heap_upd_same)
  next
    case (Inr col')
    let ?h = "if col' = col then h else h(df := setitem (h df) n col')"
    have hdf: "?h df = (pre @ [(n, col')]) @ suf"
      using Cons.prems(1) a fresh by (simp add: setitem_append_fresh)
    have dist: "distinct (map fst ((pre @ [(n, col')]) @ suf))"
      using Cons.prems(2) a by simp
    have upd: "?h(df := t) = h(df := t)" for t
      by simp
    have "convert_loop (map fst (a # suf)) h df = convert_loop (map fst suf) ?h df"
      using step Inr a by simp
    also have "\<dots> = (?h(df := (pre @ [(n, col')]) @ fst (normalize_table suf)),
                      snd (normalize_table suf))"
      by (rule Cons.IH[of ?h "pre @ [(n, col')]", OF hdf dist])
    also have "\<dots> = (h(df := pre @ fst (normalize_table (a # suf))),
                      snd (normalize_table (a # suf)))"
      using Inr a by (simp add: upd split: prod.splits)
    finally show ?thesis .
  qed
qed

lemma convert_currency_columns_normalize:
  assumes "distinct (map fst (h df))"
  shows "convert_currency_columns h df =
     (h(df := fst (normalize_table (h df))),
      case snd (normalize_table (h df)) of Inl e \<Rightarrow> Inl e | Inr _ \<Rightarrow> Inr df)"
  using convert_loop_normalize[of h df "[]" "h df"] assms
  by (simp add: convert_currency_columns_def split: sum.splits)








lemma normalize_column_idem:
  "normalize_column col = Inr col' \<Longrightarrow> normalize_column col' = Inr col'"
  by (auto simp: normalize_column_def split: column.splits if_splits sum.splits)

lemma normalize_column_plain:
  "\<not> currency_column col \<Longrightarrow> normalize_column col = Inr col"
  by (auto simp: normalize_column_def currency_column_def split: column.splits)


lemma normalize_table_names: "map fst (fst (normalize_table t)) = map fst t"
  by (induction t rule: normalize_table.induct) (auto split: sum.splits prod.splits)

lemma normalize_table_idem: "normalize_table (fst (normalize_table t)) = normalize_table t"
  by (induction t rule: normalize_table.induct)
     (auto split: sum.splits prod.splits dest: normalize_column_idem)




lemma normalize_table_no_currency:
  "\<forall>(c, col) \<in> set t. \<not> currency_column col \<Longrightarrow> normalize_table t = (t, Inr ())"
  by (induction t rule: normalize_table.induct)
     (auto split: sum.splits prod.splits simp: normalize_column_plain)

lemmas float_eval =
  py_float_def strip_def is_space_def abs_float_def lower_def lower_char_def mantissa_def
  is_digit_def digit_val_def nat_of_digits_def exponent_def fl_neg_def char_of_eq_iff

lemmas currency_eval =
  any_startswith_dollar_def startswith_def replace_currency_def strip_currency_def




text \<open>
  Claim C6. The normalizer is idempotent: a second call on the frame a first call has
  worked on changes nothing in the store and gives the same result (the same frame, or the
  same error when the first call raised).
\<close>

theorem convert_currency_columns_idempotent:
  assumes "distinct (map fst (h df))"
    and "convert_currency_columns h df = (h', r)"
  shows "convert_currency_columns h' df = (h', r)"
proof -
  let ?T = "fst (normalize_table (h df))"
  have h': "h' = h(df := ?T)"
    and r: "r = (case snd (normalize_table (h df)) of Inl e \<Rightarrow> Inl e | Inr _ \<Rightarrow> Inr df)"
    using assms by (simp_all add: convert_currency_columns_normalize)
  have dist: "distinct (map fst (h' df))"
    using assms(1) by (simp add: h' normalize_table_names)
  have "h'(df := fst (normalize_table (h' df))) = h'"
    by (rule heap_upd_same) (simp add: h' normalize_table_idem)
  then show ?thesis
    by (simp add: convert_currency_columns_normalize[of h' df, OF dist] r)
       (simp add: h' normalize_table_idem)
qed

theorem convert_currency_columns_idempotent_witness:
  "convert_currency_columns (fst (convert_currency_columns (\<lambda>_. salary_table) 0)) 0 =
     convert_currency_columns (\<lambda>_. salary_table) 0
   \<and> fst (convert_currency_columns (\<lambda>_. salary_table) 0) 0 =
     [(''Name'', ObjectCol [Some ''A'', Some ''B'']),
      (''Salary'', FloatCol [Fin 1200, Fin 950])]"
proof -
  have d: "distinct (map fst ((\<lambda>_. salary_table) (0::nat)))"
    by (simp add: salary_table_def)
  have e: "convert_currency_columns (\<lambda>_. salary_table) 0 =
      (fst (convert_currency_columns (\<lambda>_. salary_table) 0),
       snd (convert_currency_columns (\<lambda>_. salary_table) 0))"
    by simp
  have "fst (convert_currency_columns (\<lambda>_. salary_table) 0) 0 =
     [(''Name'', ObjectCol [Some ''A'', Some ''B'']),
      (''Salary'', FloatCol [Fin 1200, Fin 950])]"
    by (simp add: salary_table_def convert_currency_columns_def currency_eval float_eval)
  then show ?thesis using convert_currency_columns_idempotent[OF d e] by simp
qed



section \<open>Properties of the loader\<close>

lemma read_csv_Inr_iff: "(\<exists>t. read_csv fs name = Inr t) \<longleftrightarrow> (\<exists>t. fs name = Some (Parsed t))"
  by (auto simp: read_csv_def split: option.splits csv_file.splits)

lemma load_file_eq:
  "load_file fs name st =
     (case read_csv fs name of Inl e \<Rightarrow> Inl e
      | Inr t \<Rightarrow> Inr (((fst st)(snd st := drop_playerid t), Suc (snd st)), snd st))"
  by (cases st) (auto simp: load_file_def split: sum.splits)

lemma load_years_first_failure:
  "(case load_years fs years st of Inl e \<Rightarrow> Some e | Inr _ \<Rightarrow> None) =
     first_failure fs (concat (map year_files years))"
proof (induction years arbitrary: st)
  case Nil
  then show ?case by simp
next
  case (Cons year years)
  obtain s0 data where st: "st = (s0, data)" by (cases st)
  show ?case
    unfolding st
    by (simp add: year_files_def load_file_eq Cons.IH split: sum.splits prod.splits)
qed

lemma load_data_first_failure:
  "(case load_data fs of Inl e \<Rightarrow> Some e | Inr _ \<Rightarrow> None) = first_failure fs expected_files"
proof -
  let ?r = "load_years fs [22, 23, 24, 25] ((\<lambda>_. [], 0), \<lambda>_. Map.empty)"
  have "(case load_data fs of Inl e \<Rightarrow> Some e | Inr _ \<Rightarrow> None) =
        (case ?r of Inl e \<Rightarrow> Some e | Inr _ \<Rightarrow> None)"
    unfolding load_data_def by (cases ?r) (auto split: prod.splits)
  then show ?thesis
    unfolding expected_files_def load_years_first_failure .
qed

lemma first_failure_None_iff:
  "first_failure fs names = None \<longleftrightarrow> (\<forall>n \<in> set names. \<exists>t. fs n = Some (Parsed t))"
  by (induction names) (auto simp: read_csv_def split: sum.splits option.splits csv_file.splits)

lemma first_failure_Some:
  "first_failure fs names = Some e \<Longrightarrow>
   \<exists>pre name post. names = pre @ name # post \<and> (\<forall>n \<in> set pre. \<exists>t. fs n = Some (Parsed t)) \<and>
     (fs name = None \<and> e = FileNotFoundError name \<or>
      fs name = Some Malformed \<and> e = ParserError name)"
proof (induction names)
  case Nil
  then show ?case by simp
next
  case (Cons n names)
  show ?case
  proof (cases "read_csv fs n")
    case (Inl e')
    with Cons.prems have "e' = e" by simp
    with Inl have "fs n = None \<and> e = FileNotFoundError n \<or>
        fs n = Some Malformed \<and> e = ParserError n"
      by (auto simp: read_csv_def split: option.splits csv_file.splits)
    then have "n # names = [] @ n # names \<and> (\<forall>m \<in> set []. \<exists>t. fs m = Some (Parsed t)) \<and>
       (fs n = None \<and> e = FileNotFoundError n \<or> fs n = Some Malformed \<and> e = ParserError n)"
      by simp
    then show ?thesis by blast
  next
    case (Inr t)
    with Cons.prems have "first_failure fs names = Some e" by simp
    from Cons.IH[OF this] obtain pre name post where
      *: "names = pre @ name # post" "\<forall>m \<in> set pre. \<exists>t. fs m = Some (Parsed t)"
      "fs name = None \<and> e = FileNotFoundError name \<or> fs name = Some Malformed \<and> e = ParserError name"
      by blast
    from Inr have "\<exists>t. fs n = Some (Parsed t)" using read_csv_Inr_iff[of fs n] by blast
    with * have "n # names = (n # pre) @ name # post \<and>
       (\<forall>m \<in> set (n # pre). \<exists>t. fs m = Some (Parsed t)) \<and>
       (fs name = None \<and> e = FileNotFoundError name \<or> fs name = Some Malformed \<and> e = ParserError name)"
      by simp
    then show ?thesis by blast
  qed
qed

text \<open>
  Claim C2, as the code has it. \<open>load_data\<close> raises exactly when one of the twenty files it
  reads is absent or malformed; the exception is the reader's own for the first such file
  in load order (\<^verbatim>\<open>FileNotFoundError\<close>, or the parser's error). Both scripts call
  \<open>load_data\<close> at module level and do not handle the exception: the run ends there with
  nothing rendered.
\<close>

theorem load_data_failure:
  "((\<exists>e. load_data fs = Inl e) \<longleftrightarrow> (\<exists>n \<in> set expected_files. \<forall>t. fs n \<noteq> Some (Parsed t)))
   \<and> (\<forall>e. load_data fs = Inl e \<longrightarrow>
         (\<exists>pre name post. expected_files = pre @ name # post \<and>
            (\<forall>n \<in> set pre. \<exists>t. fs n = Some (Parsed t)) \<and>
            (fs name = None \<and> e = FileNotFoundError name \<or>
             fs name = Some Malformed \<and> e = ParserError name)) \<and>
         app argsort fs ui = \<lparr>heap_after = \<lambda>_. [], rendered = [], raised = Some e\<rparr> \<and>
         fa_tracker argsort fs ui = \<lparr>heap_after = \<lambda>_. [], rendered = [], raised = Some e\<rparr>)"
proof -
  have "(\<exists>e. load_data fs = Inl e) \<longleftrightarrow> first_failure fs expected_files \<noteq> None"
    using load_data_first_failure[of fs, symmetric] by (cases "load_data fs") auto
  then have one: "(\<exists>e. load_data fs = Inl e) \<longleftrightarrow>
      (\<exists>n \<in> set expected_files. \<forall>t. fs n \<noteq> Some (Parsed t))"
    unfolding first_failure_None_iff by blast
  have two: "\<exists>pre name post. expected_files = pre @ name # post \<and>
            (\<forall>n \<in> set pre. \<exists>t. fs n = Some (Parsed t)) \<and>
            (fs name = None \<and> e = FileNotFoundError name \<or>
             fs name = Some Malformed \<and> e = ParserError name)"
    if "load_data fs = Inl e" for e
  proof (rule first_failure_Some)
    show "first_failure fs expected_files = Some e"
      using load_data_first_failure[of fs] that by simp
  qed
  have three: "app argsort fs ui = \<lparr>heap_after = \<lambda>_. [], rendered = [], raised = Some e\<rparr> \<and>
      fa_tracker argsort fs ui = \<lparr>heap_after = \<lambda>_. [], rendered = [], raised = Some e\<rparr>"
    if "load_data fs = Inl e" for e
    using that by (simp add: app_def fa_tracker_def raise_def)
  show ?thesis using one two three by blast
qed

lemma str_nat_22: "str_nat 22 = ''22''"
  by (simp add: str_nat.simps digit_char_def)

text \<open>
  With no file present the run of \<^verbatim>\<open>app.py\<close> ends in the uncaught
  \<^verbatim>\<open>FileNotFoundError\<close> of the first file, and the script has rendered nothing: no page
  has run and no message has been shown by the program.
\<close>

theorem load_data_failure_not_surfaced:
  "rendered (app stable_argsort (\<lambda>_. None) home_inputs) = [] \<and>
   raised (app stable_argsort (\<lambda>_. None) home_inputs) = Some (FileNotFoundError ''hitters_22.csv'')"
  by (simp add: app_def load_data_def load_file_def read_csv_def raise_def str_nat_22)

theorem load_data_failure_witness:
  "(\<exists>n \<in> set expected_files. \<forall>t. (\<lambda>_. None) n \<noteq> Some (Parsed t)) \<and>
   load_data (\<lambda>_. None) = Inl (FileNotFoundError ''hitters_22.csv'') \<and>
   fa_tracker stable_argsort (\<lambda>_. None) home_inputs =
     \<lparr>heap_after = \<lambda>_. [], rendered = [], raised = Some (FileNotFoundError ''hitters_22.csv'')\<rparr>"
proof -
  have l: "load_data (\<lambda>_. None) = Inl (FileNotFoundError ''hitters_22.csv'')"
    by (simp add: load_data_def load_file_def read_csv_def str_nat_22)
  with load_data_failure[of "\<lambda>_. None" stable_argsort home_inputs] show ?thesis by blast
qed

section \<open>Properties of the top leaders\<close>























section \<open>Properties of the pages\<close>

lemmas run_eval = then_run_def emit_def raise_def

lemmas frame_eval =
  pd_concat_def unique_def column_dtype_def column_block_def common_dtype_def cast_cell_def
  dtype_of_def cells_of_def nrows_def select_rows_def isin_def eq_name_def
  set_index_transpose_def frame_empty_def frame_nrows_def frame_of_def

lemmas text_eval =
  years_text_def str_nat.simps digit_char_def category_label_def mode_label_def

lemmas lookup_eval = data_lookup_def two_digits_def data_type_def








lemma rendered_then_run_emit:
  "rendered (then_run (emit es h) f) = es @ rendered (f h)"
  by (simp add: then_run_def emit_def Let_def)

lemma search_tables_shared:
  "take 7 (rendered (search_tables ui data rest1 h)) =
   take 7 (rendered (search_tables ui data rest2 h))"
  by (simp add: search_tables_def then_run_def emit_def raise_def Let_def
           split: prod.splits sum.splits option.splits)

text \<open>
  Claim C4, as the code has it. On the home page, the 2025 free agents and the top leaders
  the two scripts give the same run: the same elements, the same store, the same
  exception if any. On the search page they render the same first ten elements (the
  sidebar, the controls, the heading, the combined table and the player selection) or
  stop with the same elements before that; what follows differs.
\<close>

theorem scripts_agree:
  "(page ui \<noteq> SearchCompare \<longrightarrow> app argsort fs ui = fa_tracker argsort fs ui)
   \<and> take 10 (rendered (app argsort fs ui)) = take 10 (rendered (fa_tracker argsort fs ui))"
proof -
  have pages: "app_pages argsort ui data h = fa_tracker_pages argsort ui data h"
    if "page ui \<noteq> SearchCompare" for data h
    using that
    by (cases "page ui") (simp_all add: app_pages_def fa_tracker_pages_def then_run_def emit_def home_def
          Let_def split: option.splits)
  have one: "app argsort fs ui = fa_tracker argsort fs ui" if "page ui \<noteq> SearchCompare"
    using that pages by (simp add: app_def fa_tracker_def split: sum.splits)
  have search: "take 10 (rendered (app_pages argsort ui data h)) =
                take 10 (rendered (fa_tracker_pages argsort ui data h))"
    if "page ui = SearchCompare" for data h
    using that search_tables_shared[of ui data _ h]
    by (simp add: app_pages_def fa_tracker_pages_def rendered_then_run_emit sidebar_def
          search_compare_app_def search_compare_fa_def then_run_def emit_def Let_def)
  have two: "take 10 (rendered (app argsort fs ui)) = take 10 (rendered (fa_tracker argsort fs ui))"
  proof (cases "page ui = SearchCompare")
    case True
    then show ?thesis using search by (simp add: app_def fa_tracker_def split: sum.splits)
  next
    case False
    then show ?thesis using one by simp
  qed
  show ?thesis using one two by blast
qed

lemmas load_eval = load_data_def load_file_def read_csv_def drop_playerid_def

lemmas page_eval =
  app_def fa_tracker_def app_pages_def fa_tracker_pages_def sidebar_def home_def
  search_compare_app_def search_compare_fa_def search_tables_def comparison_def
  pitch_table_def pitch_mix_def mode_options_def year_options_def category_options_def

text \<open>
  On the search page with one hitter selected, \<^verbatim>\<open>app.py\<close> renders what
  \<^verbatim>\<open>fa_tracker.py\<close> renders and then the validation message of the comparison, which
  \<^verbatim>\<open>fa_tracker.py\<close> does not have.
\<close>

theorem scripts_differ_on_search:
  "rendered (app stable_argsort uniform_files one_player_inputs) =
     rendered (fa_tracker stable_argsort uniform_files one_player_inputs) @
     [Warning ''Please select at least 2 players for comparison.'']
   \<and> app stable_argsort uniform_files one_player_inputs \<noteq>
       fa_tracker stable_argsort uniform_files one_player_inputs"
proof -
  have r: "rendered (app stable_argsort uniform_files one_player_inputs) =
     rendered (fa_tracker stable_argsort uniform_files one_player_inputs) @
     [Warning ''Please select at least 2 players for comparison.'']"
    by (simp add: uniform_files_def one_player_inputs_def load_eval page_eval
      run_eval frame_eval text_eval lookup_eval convert_currency_columns_def currency_eval)
  then have "rendered (app stable_argsort uniform_files one_player_inputs) \<noteq>
     rendered (fa_tracker stable_argsort uniform_files one_player_inputs)"
    by simp
  then have "app stable_argsort uniform_files one_player_inputs \<noteq>
       fa_tracker stable_argsort uniform_files one_player_inputs"
    by auto
  with r show ?thesis by simp
qed

theorem scripts_agree_witness:
  "app stable_argsort uniform_files home_inputs = fa_tracker stable_argsort uniform_files home_inputs
   \<and> take 10 (rendered (app stable_argsort uniform_files one_player_inputs)) =
       take 10 (rendered (fa_tracker stable_argsort uniform_files one_player_inputs))
   \<and> length (rendered (fa_tracker stable_argsort uniform_files one_player_inputs)) = 10"
proof -
  have "length (rendered (fa_tracker stable_argsort uniform_files one_player_inputs)) = 10"
    by (simp add: uniform_files_def one_player_inputs_def load_eval page_eval
      run_eval frame_eval text_eval lookup_eval convert_currency_columns_def currency_eval)
  then show ?thesis
    using scripts_agree[of home_inputs stable_argsort uniform_files]
      scripts_agree[of one_player_inputs stable_argsort uniform_files]
    by (simp add: home_inputs_def)
qed

section \<open>Properties of the pitch mix\<close>

lemmas pitch_eval =
  pitcher_chart_def pitch_types_def pitch_colors_def pitch_summary_def usage_accepted_def
  isdigit_def remove_char_def

lemma first_values_mem:
  "(k, v) \<in> set (first_values f lab ps) \<Longrightarrow>
   k \<in> set ps \<and> (\<exists>cs. frame_getitem f (lab k) = Inr (v # cs))"
  by (induction ps) (auto split: sum.splits list.splits)

lemma map_of_first_values_missing:
  "frame_getitem f (lab k) = Inl e \<Longrightarrow> map_of (first_values f lab ps) k = None"
proof (rule ccontr)
  assume miss: "frame_getitem f (lab k) = Inl e" and "map_of (first_values f lab ps) k \<noteq> None"
  then obtain v where "map_of (first_values f lab ps) k = Some v" by auto
  then have "(k, v) \<in> set (first_values f lab ps)" by (rule map_of_SomeD)
  then show False using first_values_mem[of k v f lab ps] miss by auto
qed








text \<open>
  Claim C9 at a usage entry that passes the script's test and is not a number: the entry
  \<^verbatim>\<open>"1.2.3%"\<close> contains a percent sign and only digits besides percent signs and
  points, so the script calls \<^verbatim>\<open>float("1.2.3")\<close>. The run of \<^verbatim>\<open>fa_tracker.py\<close>
  ends in the uncaught \<^verbatim>\<open>ValueError\<close> and renders no warning.
\<close>

theorem usage_with_two_points_raises:
  "raised (fa_tracker stable_argsort two_dots_files pitcher_inputs) = Some (ValueError ''1.2.3'')
   \<and> (\<forall>w. Warning w \<notin> set (rendered (fa_tracker stable_argsort two_dots_files pitcher_inputs)))"
  by (simp add: two_dots_files_def pitcher_inputs_def load_eval page_eval pitch_eval
      run_eval frame_eval text_eval lookup_eval convert_currency_columns_def currency_eval
      float_eval strip_columns_def)

text \<open>
  The example of the specification: a slider with usage and velocity and no value or stuff
  column gives one row of the breakdown, with the value and stuff fields empty.
\<close>

lemma pitch_mix_example:
  "pitcher_chart slider_frame ''P'' h =
     emit [Markdown (''#### P'' @ [CHR 0x27] @ ''s Pitch Usage''),
           AltairChart
             \<lparr>pitch_type = [''SL''], usage = [Fin 45], velo = [Some (Num (Fin (882 / 10)))],
              pitch_value = [None], stuff = [None]\<rparr>
             [''4S'', ''2S'', ''CH'', ''SL'', ''CB'', ''CT'', ''SPLT'', ''KCB'', ''XX'']
             [''red'', ''yellow'', ''purple'', ''green'', ''blue'', ''orange'', ''pink'',
              ''brown'', ''gray'']] h"
  by (simp add: slider_frame_def pitch_eval run_eval frame_eval float_eval)

section \<open>The data set under the pages\<close>

lemma inv_convert:
  assumes "store_invariant h0 h" and "convert_currency_columns h df = (h1, x)"
  shows "store_invariant h0 h1"
proof -
  have d0: "distinct (map fst (h0 r))" for r using assms(1) by (simp add: store_invariant_def)
  have hr: "h r = h0 r \<or> h r = fst (normalize_table (h0 r))" for r
    using assms(1) by (simp add: store_invariant_def currency_normalized_def)
  have d: "distinct (map fst (h df))"
    using hr[of df] d0[of df] by (auto simp: normalize_table_names)
  have h1: "h1 = h(df := fst (normalize_table (h df)))"
    using assms(2) convert_currency_columns_normalize[of h df, OF d] by simp
  have "h1 r = h0 r \<or> h1 r = fst (normalize_table (h0 r))" for r
    using hr[of r] hr[of df] by (auto simp: h1 normalize_table_idem)
  then show ?thesis using d0 by (simp add: store_invariant_def currency_normalized_def)
qed

lemma inv_load_frames:
  "store_invariant h0 h \<Longrightarrow> load_frames data c k years h = (h1, x) \<Longrightarrow> store_invariant h0 h1"
proof (induction years arbitrary: h h1 x)
  case Nil
  then show ?case by simp
next
  case (Cons year years)
  show ?case
  proof (cases "data_lookup data c (two_digits year) k")
    case (Inl e)
    then show ?thesis using Cons.prems by simp
  next
    case (Inr df)
    obtain h2 y where conv: "convert_currency_columns h df = (h2, y)" by (cases "convert_currency_columns h df")
    have i2: "store_invariant h0 h2" using inv_convert[OF Cons.prems(1) conv] .
    show ?thesis
    proof (cases y)
      case (Inl e)
      then show ?thesis using Cons.prems(2) Inr conv i2 by simp
    next
      case (Inr df')
      obtain h3 z where rec: "load_frames data c k years h2 = (h3, z)" by (cases "load_frames data c k years h2")
      have "store_invariant h0 h3" using Cons.IH[OF i2 rec] .
      moreover have "h1 = h3"
        using Cons.prems(2) \<open>data_lookup data c (two_digits year) k = Inr df\<close> conv Inr rec
        by (auto split: sum.splits)
      ultimately show ?thesis by simp
    qed
  qed
qed

lemma inv_emit: "store_invariant h0 h \<Longrightarrow> store_invariant h0 (heap_after (emit es h))"
  by (simp add: emit_def)

lemma inv_raise: "store_invariant h0 h \<Longrightarrow> store_invariant h0 (heap_after (raise e h))"
  by (simp add: raise_def)

lemma inv_then_run:
  "store_invariant h0 (heap_after r) \<Longrightarrow> (\<And>h'. store_invariant h0 h' \<Longrightarrow> store_invariant h0 (heap_after (f h'))) \<Longrightarrow>
   store_invariant h0 (heap_after (then_run r f))"
  by (simp add: then_run_def Let_def split: option.splits)

lemma inv_free_agents_2025: "store_invariant h0 h \<Longrightarrow> store_invariant h0 (heap_after (free_agents_2025 ui data h))"
  unfolding free_agents_2025_def
  by (intro inv_then_run inv_emit)
     (auto split: sum.splits prod.splits intro!: inv_emit inv_raise dest: inv_convert)

lemma inv_comparison: "store_invariant h0 h \<Longrightarrow> store_invariant h0 (heap_after (comparison ui f h))"
  unfolding comparison_def
  by (auto split: sum.splits prod.splits intro!: inv_then_run inv_emit inv_raise)

lemma inv_pitch_table: "store_invariant h0 h \<Longrightarrow> store_invariant h0 (heap_after (pitch_table ui data h))"
  unfolding pitch_table_def Let_def
  by (auto split: sum.splits prod.splits intro!: inv_then_run inv_emit inv_raise
           dest: inv_load_frames)

lemma inv_search_compare_app:
  "store_invariant h0 h \<Longrightarrow> store_invariant h0 (heap_after (search_compare_app ui data h))"
  unfolding search_compare_app_def search_tables_def
  by (intro inv_then_run inv_emit)
     (auto split: sum.splits prod.splits
           intro!: inv_then_run inv_emit inv_raise inv_comparison inv_pitch_table
           dest: inv_load_frames)

lemma inv_top_leaders_page:
  "store_invariant h0 h \<Longrightarrow> store_invariant h0 (heap_after (top_leaders_page argsort ui data h))"
  unfolding top_leaders_page_def
  apply (intro inv_then_run inv_emit)
   apply (auto split: sum.splits prod.splits intro!: inv_then_run inv_emit inv_raise
           dest: inv_convert)
   apply (blast intro: inv_convert)+
  done

lemma inv_app_pages: "store_invariant h0 h \<Longrightarrow> store_invariant h0 (heap_after (app_pages argsort ui data h))"
  unfolding app_pages_def home_def
  by (intro inv_then_run inv_emit)
     (auto intro!: inv_emit inv_free_agents_2025 inv_search_compare_app inv_top_leaders_page)

text \<open>
  Claim C1, as the code has it. The normalizer works in place: after a call the store
  holds, at the frame it was given, that frame with its currency columns rewritten (up to
  the first one that fails to parse), every other frame is untouched, and the call returns
  the same frame object or raises. A frame without a currency column is left as it is.
  Rendering a page of \<^verbatim>\<open>app.py\<close> leaves every frame of the data set as it was or in its
  normalized form.
\<close>

theorem convert_currency_columns_in_place:
  assumes "\<forall>df. distinct (map fst (h df))"
  shows "fst (convert_currency_columns h df) = h(df := fst (normalize_table (h df)))
       \<and> (snd (convert_currency_columns h df) = Inr df \<or>
          (\<exists>e. snd (convert_currency_columns h df) = Inl e))
       \<and> ((\<forall>c col. (c, col) \<in> set (h df) \<longrightarrow> \<not> currency_column col) \<longrightarrow>
            convert_currency_columns h df = (h, Inr df))
       \<and> currency_normalized h (heap_after (app_pages argsort ui data h))"
proof -
  have d: "distinct (map fst (h df))" using assms by simp
  note conv = convert_currency_columns_normalize[of h df, OF d]
  have one: "fst (convert_currency_columns h df) = h(df := fst (normalize_table (h df)))"
    by (simp add: conv)
  have two: "snd (convert_currency_columns h df) = Inr df \<or>
          (\<exists>e. snd (convert_currency_columns h df) = Inl e)"
    by (simp add: conv split: sum.splits)
  have three: "convert_currency_columns h df = (h, Inr df)"
    if "\<forall>c col. (c, col) \<in> set (h df) \<longrightarrow> \<not> currency_column col"
  proof -
    have "normalize_table (h df) = (h df, Inr ())"
      using that by (intro normalize_table_no_currency) auto
    then show ?thesis by (simp add: conv)
  qed
  have "store_invariant h h" using assms by (simp add: store_invariant_def currency_normalized_def)
  then have "store_invariant h (heap_after (app_pages argsort ui data h))" by (rule inv_app_pages)
  then have four: "currency_normalized h (heap_after (app_pages argsort ui data h))"
    by (simp add: store_invariant_def)
  show ?thesis using one two three four by blast
qed

text \<open>
  A frame with the column \<^verbatim>\<open>["$1,200", "$950"]\<close> is not what it was after a call of the
  normalizer, and the contract table of the 2025 pitchers in the data set is not what it
  was after the 2025 free agents page has been rendered.
\<close>

theorem convert_currency_columns_mutates:
  "fst (convert_currency_columns seasons_heap 0) 0 \<noteq> seasons_heap 0
   \<and> heap_after (app_pages stable_argsort snapshot_inputs seasons_data seasons_heap) 1 \<noteq>
       seasons_heap 1"
  by (simp add: seasons_heap_def seasons_data_def snapshot_inputs_def salary_table_def
      app_pages_def free_agents_2025_def sidebar_def mode_options_def
      run_eval frame_eval lookup_eval convert_currency_columns_def currency_eval float_eval)

theorem convert_currency_columns_in_place_witness:
  "heap_after (app_pages stable_argsort snapshot_inputs seasons_data seasons_heap) 1 =
     [(''Name'', ObjectCol [Some ''A'', Some ''B'']), (''Salary'', FloatCol [Fin 1200, Fin 950])]
   \<and> fst (normalize_table (seasons_heap 1)) =
     [(''Name'', ObjectCol [Some ''A'', Some ''B'']), (''Salary'', FloatCol [Fin 1200, Fin 950])]
   \<and> currency_normalized seasons_heap
        (heap_after (app_pages stable_argsort snapshot_inputs seasons_data seasons_heap))"
proof -
  have d: "\<forall>df. distinct (map fst (seasons_heap df))"
    by (simp add: seasons_heap_def salary_table_def)
  have a: "heap_after (app_pages stable_argsort snapshot_inputs seasons_data seasons_heap) 1 =
     [(''Name'', ObjectCol [Some ''A'', Some ''B'']), (''Salary'', FloatCol [Fin 1200, Fin 950])]"
    by (simp add: seasons_heap_def seasons_data_def snapshot_inputs_def salary_table_def
      app_pages_def free_agents_2025_def sidebar_def mode_options_def
      run_eval frame_eval lookup_eval convert_currency_columns_def currency_eval float_eval)
  have b: "fst (normalize_table (seasons_heap 1)) =
     [(''Name'', ObjectCol [Some ''A'', Some ''B'']), (''Salary'', FloatCol [Fin 1200, Fin 950])]"
    by (simp add: seasons_heap_def salary_table_def normalize_column_def currency_eval float_eval)
  show ?thesis
    using convert_currency_columns_in_place[OF d, of 0 stable_argsort snapshot_inputs seasons_data] a b by simp
qed

end
